theory Spec2Isabelle
  imports Main
begin

section \<open>The chatbot service of \<open>app.py\<close>\<close>

text \<open>
  \<open>app.py\<close> is a Flask application with one piece of shared state, the module global
  \<open>index\<close>, two functions that work on it (\<open>construct_index\<close>, \<open>generate_response\<close>),
  three route handlers and the code that runs when the module is imported.

  The vector index, the directory reader, the language model and the web framework are
  libraries. What they compute is not part of the program, so the model takes it from
  outside: an index is a value that carries the outcome of its question-answering calls,
  and the reader and the index constructor are fields of a \<open>library\<close> record that every
  function working with them receives. Each of these calls either returns or raises, and
  the program's \<open>try\<close>/\<open>except Exception\<close> blocks decide what happens then.
\<close>

subsection \<open>Python values\<close>

text \<open>
  The exceptions that occur. All of them are instances of Python's \<open>Exception\<close>, the
  class that the two \<open>except\<close> clauses of the program name. The string is the message,
  which \<open>str(e)\<close> returns and the log lines quote.
\<close>

datatype exn =
    ValueError string
  | AttributeError string
  | BadRequest string
  | UnsupportedMediaType string
  | LibraryError string

fun str_exn :: "exn \<Rightarrow> string" where
  "str_exn (ValueError m) = m"
| "str_exn (AttributeError m) = m"
| "str_exn (BadRequest m) = m"
| "str_exn (UnsupportedMediaType m) = m"
| "str_exn (LibraryError m) = m"

text \<open>
  A Python float, as far as the program looks at one: it only ever asks whether a
  number is zero. A finite float is a mantissa and a binary exponent; the decoder of
  the standard library also accepts the literals \<open>NaN\<close>, \<open>Infinity\<close> and \<open>-Infinity\<close>.
\<close>

datatype pyfloat = Finite int int | Infinity bool | NaN

text \<open>
  The values a decoded JSON document consists of, and \<open>None\<close>. An object is a Python
  \<open>dict\<close>, given by its items; \<open>map_of\<close> reads it.
\<close>

datatype json =
    JNull
  | JBool bool
  | JInt int
  | JFloat pyfloat
  | JStr string
  | JArr "json list"
  | JObj "(string \<times> json) list"

text \<open>Python's truth value of a float and of a decoded value (\<open>bool(v)\<close>, \<open>not v\<close>).\<close>

fun truthy_float :: "pyfloat \<Rightarrow> bool" where
  "truthy_float (Finite m e) = (m \<noteq> 0)"
| "truthy_float (Infinity negative) = True"
| "truthy_float NaN = True"

fun truthy :: "json \<Rightarrow> bool" where
  "truthy JNull = False"
| "truthy (JBool b) = b"
| "truthy (JInt i) = (i \<noteq> 0)"
| "truthy (JFloat f) = truthy_float f"
| "truthy (JStr s) = (s \<noteq> [])"
| "truthy (JArr xs) = (xs \<noteq> [])"
| "truthy (JObj kvs) = (kvs \<noteq> [])"

text \<open>
  \<open>v.get(key)\<close>: on a \<open>dict\<close> the value stored under the key, or \<open>None\<close> when there is
  none; every other decoded value, \<open>None\<close> included, has no attribute \<open>get\<close>.
\<close>

fun py_get :: "json \<Rightarrow> string \<Rightarrow> exn + json" where
  "py_get (JObj kvs) key = Inr (case map_of kvs key of None \<Rightarrow> JNull | Some v \<Rightarrow> v)"
| "py_get v key = Inl (AttributeError ''get'')"

subsection \<open>The libraries\<close>

text \<open>
  The answer object of the query engine (\<open>str\<close> gives its text), the query engine, and
  the index. \<open>index.as_query_engine()\<close> and \<open>query_engine.query(text)\<close> each return or
  raise. The argument of \<open>query\<close> is whatever the request held under \<open>input_text\<close>.
\<close>

datatype llm_response = Response (str: string)

datatype query_engine = QueryEngine (query: "json \<Rightarrow> exn + llm_response")

datatype vindex = VectorStoreIndex (as_query_engine: "exn + query_engine")

type_synonym document = string

text \<open>
  What a path of the file system names: a file, or a directory with the names of its
  entries. A path that names nothing is \<open>None\<close> in the file system map.
\<close>

datatype node = File | Dir "string list"

text \<open>
  \<open>SimpleDirectoryReader(path).load_data()\<close> sees what the path names and returns the
  documents or raises; \<open>VectorStoreIndex.from_documents(documents)\<close> returns an index or
  raises.
\<close>

record library =
  load_data :: "node option \<Rightarrow> exn + document list"
  from_documents :: "document list \<Rightarrow> exn + vindex"

subsection \<open>The state of the process\<close>

datatype level = INFO | WARNING | ERROR

text \<open>
  The module global \<open>index\<close> (\<open>None\<close> until an index has been built), the file system
  and the lines written to \<open>app.logger\<close>, oldest first.
\<close>

record world =
  index :: "vindex option"
  fs :: "string \<rightharpoonup> node"
  logger :: "(level \<times> string) list"

definition log :: "level \<Rightarrow> string \<Rightarrow> world \<Rightarrow> world" where
  "log lv msg s = s\<lparr>logger := logger s @ [(lv, msg)]\<rparr>"

subsection \<open>The index manager\<close>

text \<open>
  \<open>construct_index\<close> (lines 32 to 45). The global is assigned in one place only,
  line 40, which is reached when the reader returned at least one document and the
  constructor returned. Both early exits return \<open>None\<close> without an assignment.
\<close>

definition construct_index :: "library \<Rightarrow> string \<Rightarrow> world \<Rightarrow> vindex option \<times> world" where
  "construct_index lib directory_path s =
     (let s1 = log INFO (''Constructing index from directory: '' @ directory_path) s in
      case load_data lib (fs s1 directory_path) of
        Inl e \<Rightarrow> (None, log ERROR (''Error constructing index: '' @ str_exn e) s1)
      | Inr documents \<Rightarrow>
          if documents = [] then
            (None, log ERROR (''No documents found in directory: '' @ directory_path) s1)
          else
            (case from_documents lib documents of
               Inl e \<Rightarrow> (None, log ERROR (''Error constructing index: '' @ str_exn e) s1)
             | Inr i \<Rightarrow>
                 (let s2 = log INFO ''Index constructed successfully.'' (s1\<lparr>index := Some i\<rparr>)
                  in (index s2, s2))))"

text \<open>\<open>generate_response\<close> (lines 47 to 58).\<close>

definition generate_response :: "json \<Rightarrow> world \<Rightarrow> string \<times> world" where
  "generate_response input_text s =
     (case index s of
        None \<Rightarrow>
          (''Error: Chatbot index is not available. Please try again later.'',
           log ERROR ''Index is not loaded.'' s)
      | Some i \<Rightarrow>
          (case as_query_engine i of
             Inl e \<Rightarrow>
               (''Error: Could not generate a response.'',
                log ERROR (''Error generating response: '' @ str_exn e) s)
           | Inr query_engine \<Rightarrow>
               (case query query_engine input_text of
                  Inl e \<Rightarrow>
                    (''Error: Could not generate a response.'',
                     log ERROR (''Error generating response: '' @ str_exn e) s)
                | Inr response \<Rightarrow> (str response, s))))"

subsection \<open>Requests and responses\<close>

text \<open>
  A request as the handler of \<open>/api/chatbot\<close> meets it: whether its content type
  announces JSON, and its body, which is empty, or text that does not decode as JSON
  (kept as it is), or the decoded value.
\<close>

datatype payload = Empty | Invalid string | Valid json

record request =
  is_json :: bool
  payload :: payload

text \<open>
  The property \<open>request.json\<close> of the framework: it raises 415 Unsupported Media Type
  when the content type does not announce JSON, raises 400 Bad Request when the body
  does not decode, and is the decoded value otherwise.
\<close>

definition request_json :: "request \<Rightarrow> exn + json" where
  "request_json r =
     (if \<not> is_json r then Inl (UnsupportedMediaType ''Did not attempt to load JSON data'')
      else case payload r of
             Valid j \<Rightarrow> Inr j
           | Empty \<Rightarrow> Inl (BadRequest ''Failed to decode JSON object'')
           | Invalid raw \<Rightarrow> Inl (BadRequest ''Failed to decode JSON object''))"

text \<open>
  \<open>make_response(jsonify(d), code)\<close>: the status code and the JSON document of the
  body. \<open>make_response\<close> with one argument answers 200.
\<close>

record response =
  status :: nat
  body :: json

definition make_response :: "json \<Rightarrow> nat \<Rightarrow> response" where
  "make_response d code = \<lparr>status = code, body = d\<rparr>"

subsection \<open>The route handlers\<close>

text \<open>
  \<open>chatbot\<close> (lines 60 to 67). The handler has no \<open>try\<close>: an exception of line 62
  leaves it, which is the \<open>Inl\<close> result.
\<close>

definition chatbot :: "request \<Rightarrow> world \<Rightarrow> (exn + response) \<times> world" where
  "chatbot r s =
     (case request_json r of
        Inl e \<Rightarrow> (Inl e, s)
      | Inr j \<Rightarrow>
          (case py_get j ''input_text'' of
             Inl e \<Rightarrow> (Inl e, s)
           | Inr input_text \<Rightarrow>
               if \<not> truthy input_text then
                 (Inr (make_response (JObj [(''error'', JStr ''input_text is required'')]) 400), s)
               else
                 (let (response_text, s1) = generate_response input_text s
                  in (Inr (make_response (JObj [(''response'', JStr response_text)]) 200), s1))))"

text \<open>
  \<open>reload_index_route\<close> (lines 69 to 75). The condition of line 72 is the truth value
  of what \<open>construct_index\<close> returned: \<open>None\<close> is false, and an index object, whose class
  defines neither \<open>__bool__\<close> nor \<open>__len__\<close>, is true.
\<close>

fun truthy_index :: "vindex option \<Rightarrow> bool" where
  "truthy_index None = False"
| "truthy_index (Some i) = True"

definition reload_index_route :: "library \<Rightarrow> world \<Rightarrow> response \<times> world" where
  "reload_index_route lib s =
     (let s1 = log INFO ''Reloading index via API call...'' s;
          (built, s2) = construct_index lib ''docs'' s1
      in if truthy_index built then
           (make_response (JObj [(''message'', JStr ''Index reloaded successfully'')]) 200, s2)
         else
           (make_response (JObj [(''error'', JStr ''Failed to reload index'')]) 500, s2))"

text \<open>\<open>hello\<close> (lines 77 to 83) reads and writes nothing.\<close>

definition hello :: "world \<Rightarrow> response \<times> world" where
  "hello s =
     (make_response
        (JObj [(''success'', JBool True),
               (''message'', JStr ''Hello from your DeepSeek-powered chatbot!''),
               (''data'', JObj [])]) 200,
      s)"

subsection \<open>Module initialisation\<close>

text \<open>
  \<open>dotenv_values\<close> gives a dictionary from names to values, where a name written
  without a value has the value \<open>None\<close>. \<open>config.get(key)\<close> is the value or \<open>None\<close>.
\<close>

type_synonym config = "string \<rightharpoonup> string option"

definition config_get :: "config \<Rightarrow> string \<Rightarrow> string option" where
  "config_get cfg key = (case cfg key of None \<Rightarrow> None | Some v \<Rightarrow> v)"

text \<open>The truth value of an optional string: \<open>None\<close> and the empty string are false.\<close>

fun truthy_str :: "string option \<Rightarrow> bool" where
  "truthy_str None = False"
| "truthy_str (Some v) = (v \<noteq> [])"

text \<open>
  The statements at module level, in their order: the credential check (lines 16 to
  20), the global's first value (line 30), the directory check (lines 86 to 88) and the
  first construction (line 90), whose return value is dropped. The \<open>raise\<close> of line 20 ends
  the import; it is the \<open>Inl\<close> result, together with the line logged before it. Line 23
  hands the credential to the model client and touches nothing that is modelled here.
\<close>

definition module_init ::
  "library \<Rightarrow> config \<Rightarrow> (string \<rightharpoonup> node) \<Rightarrow> (exn \<times> (level \<times> string) list) + world" where
  "module_init lib cfg fs0 =
     (let DEEPSEEK_API_KEY = config_get cfg ''DEEPSEEK_API_KEY'' in
      if \<not> truthy_str DEEPSEEK_API_KEY then
        Inl (ValueError ''DeepSeek API key is required'',
             [(ERROR, ''DEEPSEEK_API_KEY not found in .env file or environment variables.'')])
      else
        (let s0 = \<lparr>index = None, fs = fs0, logger = []\<rparr>;
             s1 = (if fs s0 ''docs'' = None then
                     (log WARNING
                        ''The 'docs' directory does not exist. Please create it and add your documents.''
                        s0)\<lparr>fs := (fs s0)(''docs'' \<mapsto> Dir [])\<rparr>
                   else s0)
         in Inr (snd (construct_index lib ''docs'' s1))))"

subsection \<open>Sample libraries, states and requests\<close>

text \<open>
  An index whose query engine answers every question with the same text, one whose
  query engine raises, and one that cannot give a query engine at all.
\<close>

definition answering_index :: vindex where
  "answering_index = VectorStoreIndex (Inr (QueryEngine (\<lambda>q. Inr (Response ''Paris''))))"

definition failing_index :: vindex where
  "failing_index = VectorStoreIndex (Inr (QueryEngine (\<lambda>q. Inl (LibraryError ''timeout''))))"

definition broken_index :: vindex where
  "broken_index = VectorStoreIndex (Inl (LibraryError ''no llm''))"

text \<open>
  A library whose reader gives one document for each entry of a directory, none for an
  empty directory, and raises for anything else; its constructor returns
  \<open>answering_index\<close>. A second one whose reader raises for an empty directory as well,
  and a third whose constructor raises.
\<close>

definition list_reader :: "node option \<Rightarrow> exn + document list" where
  "list_reader n =
     (case n of
        Some (Dir names) \<Rightarrow> Inr names
      | Some File \<Rightarrow> Inl (ValueError ''Directory does not exist.'')
      | None \<Rightarrow> Inl (ValueError ''Directory does not exist.''))"

definition strict_reader :: "node option \<Rightarrow> exn + document list" where
  "strict_reader n =
     (case n of
        Some (Dir names) \<Rightarrow>
          (if names = [] then Inl (ValueError ''No files found.'') else Inr names)
      | Some File \<Rightarrow> Inl (ValueError ''Directory does not exist.'')
      | None \<Rightarrow> Inl (ValueError ''Directory does not exist.''))"

definition sample_library :: library where
  "sample_library = \<lparr>load_data = list_reader, from_documents = (\<lambda>ds. Inr answering_index)\<rparr>"

definition strict_library :: library where
  "strict_library = \<lparr>load_data = strict_reader, from_documents = (\<lambda>ds. Inr answering_index)\<rparr>"

definition raising_library :: library where
  "raising_library =
     \<lparr>load_data = list_reader, from_documents = (\<lambda>ds. Inl (LibraryError ''embedding failed''))\<rparr>"

text \<open>
  A process that holds a working index while its directory has been emptied, one
  without an index, and two whose index fails on a query.
\<close>

definition serving_world :: world where
  "serving_world = \<lparr>index = Some answering_index, fs = [''docs'' \<mapsto> Dir []], logger = []\<rparr>"

definition idle_world :: world where
  "idle_world = \<lparr>index = None, fs = [''docs'' \<mapsto> Dir []], logger = []\<rparr>"

definition failing_world :: world where
  "failing_world = \<lparr>index = Some failing_index, fs = [''docs'' \<mapsto> Dir [''a.txt'']], logger = []\<rparr>"

definition broken_world :: world where
  "broken_world = \<lparr>index = Some broken_index, fs = [''docs'' \<mapsto> Dir [''a.txt'']], logger = []\<rparr>"

definition question :: request where
  "question = \<lparr>is_json = True, payload = Valid (JObj [(''input_text'', JStr ''capital of France?'')])\<rparr>"

definition blank_question :: request where
  "blank_question = \<lparr>is_json = True, payload = Valid (JObj [(''input_text'', JStr [])])\<rparr>"

definition no_question :: request where
  "no_question = \<lparr>is_json = True, payload = Valid (JObj [(''text'', JStr ''hi'')])\<rparr>"

definition garbled :: request where
  "garbled = \<lparr>is_json = True, payload = Invalid ''{input_text:''\<rparr>"

definition bodiless :: request where
  "bodiless = \<lparr>is_json = False, payload = Empty\<rparr>"

section \<open>Properties\<close>

subsection \<open>Logging leaves the index and the file system alone\<close>

lemma index_log [simp]: "index (log lv msg s) = index s"
  by (simp add: log_def)

lemma fs_log [simp]: "fs (log lv msg s) = fs s"
  by (simp add: log_def)

lemma logger_log [simp]: "logger (log lv msg s) = logger s @ [(lv, msg)]"
  by (simp add: log_def)

text \<open>What \<open>construct_index\<close> does on each of its four paths.\<close>

lemma construct_index_reader_raises:
  "load_data lib (fs s p) = Inl e \<Longrightarrow>
   construct_index lib p s =
     (None, log ERROR (''Error constructing index: '' @ str_exn e)
              (log INFO (''Constructing index from directory: '' @ p) s))"
  by (simp add: construct_index_def Let_def)

lemma construct_index_no_documents:
  "load_data lib (fs s p) = Inr [] \<Longrightarrow>
   construct_index lib p s =
     (None, log ERROR (''No documents found in directory: '' @ p)
              (log INFO (''Constructing index from directory: '' @ p) s))"
  by (simp add: construct_index_def Let_def)

lemma construct_index_constructor_raises:
  "load_data lib (fs s p) = Inr ds \<Longrightarrow> ds \<noteq> [] \<Longrightarrow> from_documents lib ds = Inl e \<Longrightarrow>
   construct_index lib p s =
     (None, log ERROR (''Error constructing index: '' @ str_exn e)
              (log INFO (''Constructing index from directory: '' @ p) s))"
  by (simp add: construct_index_def Let_def)

lemma construct_index_built:
  "load_data lib (fs s p) = Inr ds \<Longrightarrow> ds \<noteq> [] \<Longrightarrow> from_documents lib ds = Inr i \<Longrightarrow>
   construct_index lib p s =
     (Some i, log INFO ''Index constructed successfully.''
                ((log INFO (''Constructing index from directory: '' @ p) s)\<lparr>index := Some i\<rparr>))"
  by (simp add: construct_index_def Let_def)

lemma construct_index_cases:
  obtains (reader_raises) e where "load_data lib (fs s p) = Inl e"
  | (no_documents) "load_data lib (fs s p) = Inr []"
  | (constructor_raises) ds e where
      "load_data lib (fs s p) = Inr ds" "ds \<noteq> []" "from_documents lib ds = Inl e"
  | (built) ds i where
      "load_data lib (fs s p) = Inr ds" "ds \<noteq> []" "from_documents lib ds = Inr i"
proof (cases "load_data lib (fs s p)")
  case (Inl e)
  then show ?thesis by (rule reader_raises)
next
  case (Inr ds)
  show ?thesis
  proof (cases "ds = []")
    case True
    with Inr show ?thesis by (simp add: no_documents)
  next
    case False
    with Inr show ?thesis
      by (cases "from_documents lib ds") (auto intro: constructor_raises built)
  qed
qed

lemma construct_index_fs [simp]: "fs (snd (construct_index lib p s)) = fs s"
  by (cases rule: construct_index_cases [of lib s p])
     (simp_all add: construct_index_reader_raises construct_index_no_documents
        construct_index_constructor_raises construct_index_built)

text \<open>\<open>generate_response\<close> reads the index and nothing else of the state.\<close>

lemma generate_response_index [simp]: "index (snd (generate_response t s)) = index s"
  by (simp add: generate_response_def split: option.splits sum.splits)

lemma generate_response_fs [simp]: "fs (snd (generate_response t s)) = fs s"
  by (simp add: generate_response_def split: option.splits sum.splits)

lemma chatbot_valid_object:
  "is_json r \<Longrightarrow> payload r = Valid (JObj kvs) \<Longrightarrow>
   chatbot r s =
     (let input_text = (case map_of kvs ''input_text'' of None \<Rightarrow> JNull | Some v \<Rightarrow> v) in
      if \<not> truthy input_text then
        (Inr \<lparr>status = 400, body = JObj [(''error'', JStr ''input_text is required'')]\<rparr>, s)
      else
        (Inr \<lparr>status = 200, body = JObj [(''response'', JStr (fst (generate_response input_text s)))]\<rparr>,
         snd (generate_response input_text s)))"
  by (simp add: chatbot_def request_json_def make_response_def Let_def split: prod.splits)

text \<open>
  A body that decodes to something other than an object (a list, a string, a number,
  \<open>null\<close>) has no \<open>get\<close>: line 62 raises \<open>AttributeError\<close> and the handler is left.
\<close>

lemma chatbot_non_object_body:
  "is_json r \<Longrightarrow> payload r = Valid v \<Longrightarrow> \<forall>kvs. v \<noteq> JObj kvs \<Longrightarrow>
   chatbot r s = (Inl (AttributeError ''get''), s)"
  by (cases v) (simp_all add: chatbot_def request_json_def)

subsection \<open>The chatbot route\<close>

text \<open>
  C2. A request to \<open>POST /api/chatbot\<close> whose JSON body is an object in which
  \<open>input_text\<close> is missing, or is there with a value that Python counts as false
  (\<open>null\<close>, \<open>false\<close>, zero, the empty string, list or object), is answered with status 400
  and the body \<open>{"error": "input_text is required"}\<close>, and the state stays as it was.
\<close>

theorem chatbot_requires_input_text:
  assumes "is_json r" and "payload r = Valid (JObj kvs)"
    and "map_of kvs ''input_text'' = None \<or> (map_of kvs ''input_text'' = Some v \<and> \<not> truthy v)"
  shows "chatbot r s =
           (Inr \<lparr>status = 400, body = JObj [(''error'', JStr ''input_text is required'')]\<rparr>, s)"
  using assms by (auto simp add: chatbot_valid_object)

theorem chatbot_requires_input_text_witness:
  "chatbot no_question idle_world =
     (Inr \<lparr>status = 400, body = JObj [(''error'', JStr ''input_text is required'')]\<rparr>, idle_world)
   \<and> chatbot blank_question serving_world =
     (Inr \<lparr>status = 400, body = JObj [(''error'', JStr ''input_text is required'')]\<rparr>, serving_world)"
proof -
  have missing: "map_of [(''text'', JStr ''hi'')] ''input_text'' = None
      \<or> (map_of [(''text'', JStr ''hi'')] ''input_text'' = Some JNull \<and> \<not> truthy JNull)"
    by simp
  have blank: "map_of [(''input_text'', JStr [])] ''input_text'' = None
      \<or> (map_of [(''input_text'', JStr [])] ''input_text'' = Some (JStr []) \<and> \<not> truthy (JStr []))"
    by simp
  have "is_json no_question" "payload no_question = Valid (JObj [(''text'', JStr ''hi'')])"
    by (simp_all add: no_question_def)
  from chatbot_requires_input_text [OF this missing, of idle_world]
  have first: "chatbot no_question idle_world =
     (Inr \<lparr>status = 400, body = JObj [(''error'', JStr ''input_text is required'')]\<rparr>, idle_world)" .
  have "is_json blank_question" "payload blank_question = Valid (JObj [(''input_text'', JStr [])])"
    by (simp_all add: blank_question_def)
  from chatbot_requires_input_text [OF this blank, of serving_world]
  have second: "chatbot blank_question serving_world =
     (Inr \<lparr>status = 400, body = JObj [(''error'', JStr ''input_text is required'')]\<rparr>, serving_world)" .
  from first second show ?thesis by (rule conjI)
qed

text \<open>
  C3. A request to \<open>POST /api/chatbot\<close> whose \<open>input_text\<close> is a non-empty string (or any
  other value that Python counts as true), arriving while the global \<open>index\<close> is \<open>None\<close>,
  is answered with status 200 and the fixed message that the index is not available
  in the field \<open>response\<close>. One error line is logged and the index stays \<open>None\<close>.
\<close>

theorem chatbot_without_index:
  assumes "is_json r" and "payload r = Valid (JObj kvs)"
    and "map_of kvs ''input_text'' = Some v" and "truthy v"
    and "index s = None"
  shows "chatbot r s =
           (Inr \<lparr>status = 200,
                 body = JObj [(''response'',
                   JStr ''Error: Chatbot index is not available. Please try again later.'')]\<rparr>,
            log ERROR ''Index is not loaded.'' s)"
  using assms by (simp add: chatbot_valid_object generate_response_def)

theorem chatbot_without_index_witness:
  "index idle_world = None \<and>
   chatbot question idle_world =
     (Inr \<lparr>status = 200,
           body = JObj [(''response'',
             JStr ''Error: Chatbot index is not available. Please try again later.'')]\<rparr>,
      log ERROR ''Index is not loaded.'' idle_world)"
proof -
  have req: "is_json question"
    "payload question = Valid (JObj [(''input_text'', JStr ''capital of France?'')])"
    by (simp_all add: question_def)
  have field: "map_of [(''input_text'', JStr ''capital of France?'')] ''input_text''
      = Some (JStr ''capital of France?'')"
    by simp
  have nonempty: "truthy (JStr ''capital of France?'')" by simp
  have absent: "index idle_world = None" by (simp add: idle_world_def)
  from absent chatbot_without_index [OF req field nonempty absent] show ?thesis by (rule conjI)
qed

text \<open>
  C4. A request to \<open>POST /api/chatbot\<close> with a non-empty \<open>input_text\<close>, arriving while
  there is an index whose question-answering interface raises (in \<open>as_query_engine\<close> or
  in \<open>query\<close>), is answered with status 200 and the fixed text
  \<open>Error: Could not generate a response.\<close> in the field \<open>response\<close>. The handler returns
  a response (the \<open>Inr\<close>), so the exception does not reach the framework; it is logged.
\<close>

theorem chatbot_query_raises:
  assumes "is_json r" and "payload r = Valid (JObj kvs)"
    and "map_of kvs ''input_text'' = Some v" and "truthy v"
    and "index s = Some i"
    and "as_query_engine i = Inl e \<or> (as_query_engine i = Inr qe \<and> query qe v = Inl e)"
  shows "chatbot r s =
           (Inr \<lparr>status = 200,
                 body = JObj [(''response'', JStr ''Error: Could not generate a response.'')]\<rparr>,
            log ERROR (''Error generating response: '' @ str_exn e) s)"
  using assms by (auto simp add: chatbot_valid_object generate_response_def)

theorem chatbot_query_raises_witness:
  "chatbot question failing_world =
     (Inr \<lparr>status = 200,
           body = JObj [(''response'', JStr ''Error: Could not generate a response.'')]\<rparr>,
      log ERROR ''Error generating response: timeout'' failing_world)
   \<and> chatbot question broken_world =
     (Inr \<lparr>status = 200,
           body = JObj [(''response'', JStr ''Error: Could not generate a response.'')]\<rparr>,
      log ERROR ''Error generating response: no llm'' broken_world)"
proof -
  have req: "is_json question"
    "payload question = Valid (JObj [(''input_text'', JStr ''capital of France?'')])"
    by (simp_all add: question_def)
  have field: "map_of [(''input_text'', JStr ''capital of France?'')] ''input_text''
      = Some (JStr ''capital of France?'')"
    by simp
  have nonempty: "truthy (JStr ''capital of France?'')" by simp
  let ?qe = "QueryEngine (\<lambda>q. Inl (LibraryError ''timeout''))"
  have present1: "index failing_world = Some failing_index" by (simp add: failing_world_def)
  have raises1: "as_query_engine failing_index = Inl (LibraryError ''timeout'')
      \<or> (as_query_engine failing_index = Inr ?qe
          \<and> query ?qe (JStr ''capital of France?'') = Inl (LibraryError ''timeout''))"
    by (simp add: failing_index_def)
  have present2: "index broken_world = Some broken_index" by (simp add: broken_world_def)
  have raises2: "as_query_engine broken_index = Inl (LibraryError ''no llm'')
      \<or> (as_query_engine broken_index = Inr ?qe
          \<and> query ?qe (JStr ''capital of France?'') = Inl (LibraryError ''no llm''))"
    by (simp add: broken_index_def)
  from chatbot_query_raises [OF req field nonempty present1 raises1]
       chatbot_query_raises [OF req field nonempty present2 raises2]
  show ?thesis by simp
qed

text \<open>
  C9. A request to \<open>POST /api/chatbot\<close> whose body is empty or does not decode as JSON
  makes line 62 raise: \<open>request.json\<close> raises, the handler has nothing that catches it,
  and the check of \<open>input_text\<close> on line 63 is not reached. The handler produces no
  response of its own, so not the 400 response with \<open>input_text is required\<close> either,
  and the state stays as it was.
\<close>

theorem chatbot_undecodable_body:
  assumes "payload r = Empty \<or> payload r = Invalid raw"
  shows "\<exists>e. request_json r = Inl e \<and> chatbot r s = (Inl e, s)"
  using assms by (auto simp add: chatbot_def request_json_def)

theorem chatbot_undecodable_body_witness:
  "(\<exists>e. request_json garbled = Inl e \<and> chatbot garbled serving_world = (Inl e, serving_world))
   \<and> (\<exists>e. request_json bodiless = Inl e \<and> chatbot bodiless serving_world = (Inl e, serving_world))"
proof -
  have "payload garbled = Empty \<or> payload garbled = Invalid ''{input_text:''"
    by (simp add: garbled_def)
  from chatbot_undecodable_body [OF this, of serving_world]
  have first: "\<exists>e. request_json garbled = Inl e
      \<and> chatbot garbled serving_world = (Inl e, serving_world)" .
  have "payload bodiless = Empty \<or> payload bodiless = Invalid []"
    by (simp add: bodiless_def)
  from chatbot_undecodable_body [OF this, of serving_world]
  have second: "\<exists>e. request_json bodiless = Inl e
      \<and> chatbot bodiless serving_world = (Inl e, serving_world)" .
  from first second show ?thesis by (rule conjI)
qed

subsection \<open>Rebuilding the index\<close>

text \<open>
  C1, as stated: when \<open>construct_index\<close> fails, the global \<open>index\<close> is set to \<open>None\<close>,
  so an index that worked before is gone and the next query gets the message that the
  index is not available. The code does not do that. Here a process holds a working
  index and its directory has been emptied: the rebuild fails (\<open>construct_index\<close>
  returns \<open>None\<close>, the reload route answers 500), the global still holds an index, and
  the next query is answered by that index.
\<close>

theorem failed_rebuild_keeps_serving:
  "fst (construct_index sample_library ''docs'' serving_world) = None
   \<and> fst (reload_index_route sample_library serving_world) =
       \<lparr>status = 500, body = JObj [(''error'', JStr ''Failed to reload index'')]\<rparr>
   \<and> index (snd (reload_index_route sample_library serving_world)) \<noteq> None
   \<and> fst (chatbot question (snd (reload_index_route sample_library serving_world))) =
       Inr \<lparr>status = 200, body = JObj [(''response'', JStr ''Paris'')]\<rparr>
   \<and> fst (chatbot question (snd (reload_index_route sample_library serving_world))) \<noteq>
       Inr \<lparr>status = 200,
            body = JObj [(''response'',
              JStr ''Error: Chatbot index is not available. Please try again later.'')]\<rparr>"
  by (simp add: reload_index_route_def construct_index_def chatbot_def generate_response_def
      request_json_def make_response_def sample_library_def list_reader_def serving_world_def
      question_def answering_index_def log_def Let_def)

text \<open>
  C1, amended: when \<open>construct_index\<close> fails (the reader raises, or it returns no
  documents, or the index constructor raises), it returns \<open>None\<close> and leaves the global
  \<open>index\<close> as it was: an index that was there before the call is still there after it,
  and the global is \<open>None\<close> after the call exactly when it was \<open>None\<close> before.
\<close>

theorem construct_index_failure_keeps_index:
  assumes "load_data lib (fs s p) = Inl e
           \<or> load_data lib (fs s p) = Inr []
           \<or> (load_data lib (fs s p) = Inr ds \<and> from_documents lib ds = Inl e)"
  shows "fst (construct_index lib p s) = None
         \<and> index (snd (construct_index lib p s)) = index s
         \<and> (index (snd (construct_index lib p s)) = None) = (index s = None)"
proof -
  have failed: "fst (construct_index lib p s) = None \<and> index (snd (construct_index lib p s)) = index s"
    using assms
    by (cases "ds = []")
       (auto simp add: construct_index_reader_raises construct_index_no_documents
          construct_index_constructor_raises)
  then show ?thesis by simp
qed

theorem construct_index_failure_keeps_index_witness:
  "load_data sample_library (fs serving_world ''docs'') = Inr []
   \<and> fst (construct_index sample_library ''docs'' serving_world) = None
   \<and> index (snd (construct_index sample_library ''docs'' serving_world)) = Some answering_index
   \<and> index (snd (construct_index sample_library ''docs'' serving_world)) \<noteq> None"
proof -
  have empty: "load_data sample_library (fs serving_world ''docs'') = Inr []"
    by (simp add: sample_library_def list_reader_def serving_world_def)
  then have "load_data sample_library (fs serving_world ''docs'') = Inl (ValueError [])
      \<or> load_data sample_library (fs serving_world ''docs'') = Inr []
      \<or> (load_data sample_library (fs serving_world ''docs'') = Inr []
          \<and> from_documents sample_library [] = Inl (ValueError []))"
    by simp
  from construct_index_failure_keeps_index [OF this] empty
  show ?thesis
    by (simp add: serving_world_def)
qed

text \<open>
  C5. \<open>POST /api/chatbot/reload\<close> answers 200 with
  \<open>{"message": "Index reloaded successfully"}\<close> exactly when the construction from
  \<open>docs\<close> succeeds, that is, when the reader returns at least one document and the index
  constructor returns an index; in every other case (the reader raises or returns no
  documents, or the constructor raises) it answers 500 with
  \<open>{"error": "Failed to reload index"}\<close>.
\<close>

theorem reload_index_route_answer:
  "fst (reload_index_route lib s) =
     (if \<exists>ds i. load_data lib (fs s ''docs'') = Inr ds \<and> ds \<noteq> [] \<and> from_documents lib ds = Inr i
      then \<lparr>status = 200, body = JObj [(''message'', JStr ''Index reloaded successfully'')]\<rparr>
      else \<lparr>status = 500, body = JObj [(''error'', JStr ''Failed to reload index'')]\<rparr>)"
proof (cases rule: construct_index_cases [of lib "log INFO ''Reloading index via API call...'' s" "''docs''"])
  case (reader_raises e)
  then show ?thesis
    by (simp add: reload_index_route_def Let_def make_response_def construct_index_reader_raises)
next
  case no_documents
  then show ?thesis
    by (simp add: reload_index_route_def Let_def make_response_def construct_index_no_documents)
next
  case (constructor_raises ds e)
  then show ?thesis
    by (simp add: reload_index_route_def Let_def make_response_def
        construct_index_constructor_raises)
next
  case (built ds i)
  then show ?thesis
    by (simp add: reload_index_route_def Let_def make_response_def construct_index_built)
qed

theorem reload_index_route_answer_witness:
  "fst (reload_index_route sample_library failing_world) =
     \<lparr>status = 200, body = JObj [(''message'', JStr ''Index reloaded successfully'')]\<rparr>
   \<and> fst (reload_index_route raising_library failing_world) =
     \<lparr>status = 500, body = JObj [(''error'', JStr ''Failed to reload index'')]\<rparr>
   \<and> fst (reload_index_route strict_library idle_world) =
     \<lparr>status = 500, body = JObj [(''error'', JStr ''Failed to reload index'')]\<rparr>"
  using reload_index_route_answer [of sample_library failing_world]
        reload_index_route_answer [of raising_library failing_world]
        reload_index_route_answer [of strict_library idle_world]
  by (simp add: sample_library_def raising_library_def strict_library_def list_reader_def
      strict_reader_def failing_world_def idle_world_def)

subsection \<open>The liveness route\<close>

text \<open>
  C7. \<open>GET /api/chatbot/hello\<close> answers 200 with the same payload in every state of the
  process, whatever the global \<open>index\<close> holds: the field \<open>success\<close> is \<open>true\<close>, the field
  \<open>data\<close> is the empty object, and the state is left as it was.
\<close>

theorem hello_fixed_payload:
  "hello s =
     (\<lparr>status = 200,
       body = JObj [(''success'', JBool True),
                    (''message'', JStr ''Hello from your DeepSeek-powered chatbot!''),
                    (''data'', JObj [])]\<rparr>, s)
   \<and> status (fst (hello s)) = 200
   \<and> py_get (body (fst (hello s))) ''success'' = Inr (JBool True)
   \<and> py_get (body (fst (hello s))) ''data'' = Inr (JObj [])"
  by (simp add: hello_def make_response_def)

subsection \<open>Who writes the index\<close>

text \<open>
  C10. \<open>generate_response\<close> never assigns the global \<open>index\<close>: for every input and every
  state (no index, an index that answers, an index whose query engine raises) the
  global after the call is the one before it. The same holds for the handlers that do
  not call \<open>construct_index\<close>, which are \<open>chatbot\<close> and \<open>hello\<close>; and the reload route
  leaves in the global what its call of \<open>construct_index\<close> left there.
\<close>

theorem generate_response_keeps_index:
  "index (snd (generate_response t s)) = index s
   \<and> index (snd (chatbot r s)) = index s
   \<and> index (snd (hello s)) = index s
   \<and> index (snd (reload_index_route lib s)) =
       index (snd (construct_index lib ''docs'' (log INFO ''Reloading index via API call...'' s)))"
proof -
  have "index (snd (chatbot r s)) = index s"
    by (simp add: chatbot_def split: sum.splits prod.splits)
       (metis generate_response_index snd_conv)
  moreover have "index (snd (reload_index_route lib s)) =
       index (snd (construct_index lib ''docs'' (log INFO ''Reloading index via API call...'' s)))"
    by (simp add: reload_index_route_def Let_def split: prod.splits)
  ultimately show ?thesis
    by (simp add: hello_def)
qed

subsection \<open>Start of the process\<close>

text \<open>
  C6. When the configuration holds no API credential (the name \<open>DEEPSEEK_API_KEY\<close> is
  missing, or has no value, or has the empty string as its value), the import of the
  module ends with \<open>ValueError("DeepSeek API key is required")\<close>, after one logged error
  line, and no state to serve from comes into being. With a credential in the
  configuration the import goes on past the check and yields the initial state.
\<close>

theorem module_init_credential:
  "(module_init lib cfg fs0 =
      Inl (ValueError ''DeepSeek API key is required'',
           [(ERROR, ''DEEPSEEK_API_KEY not found in .env file or environment variables.'')]))
     = (cfg ''DEEPSEEK_API_KEY'' = None \<or> cfg ''DEEPSEEK_API_KEY'' = Some None
        \<or> cfg ''DEEPSEEK_API_KEY'' = Some (Some []))
   \<and> (\<exists>s. module_init lib cfg fs0 = Inr s)
     = (\<exists>k. cfg ''DEEPSEEK_API_KEY'' = Some (Some k) \<and> k \<noteq> [])"
proof (cases "cfg ''DEEPSEEK_API_KEY''")
  case None
  then show ?thesis
    by (simp add: module_init_def config_get_def)
next
  case named: (Some v)
  show ?thesis
  proof (cases v)
    case None
    with named show ?thesis
      by (simp add: module_init_def config_get_def)
  next
    case (Some k)
    with named show ?thesis
      by (simp add: module_init_def config_get_def Let_def)
  qed
qed

theorem module_init_credential_witness:
  "module_init sample_library Map.empty Map.empty =
      Inl (ValueError ''DeepSeek API key is required'',
           [(ERROR, ''DEEPSEEK_API_KEY not found in .env file or environment variables.'')])
   \<and> (\<exists>s. module_init sample_library [''DEEPSEEK_API_KEY'' \<mapsto> Some ''sk-1''] Map.empty = Inr s)"
  using module_init_credential [of sample_library Map.empty Map.empty]
        module_init_credential [of sample_library "[''DEEPSEEK_API_KEY'' \<mapsto> Some ''sk-1'']" Map.empty]
  by simp

text \<open>
  C8. With a credential in the configuration, the import of the module does not raise.
  If \<open>docs\<close> does not exist it is created as an empty directory, and nothing else of the
  file system changes. If \<open>docs\<close> was missing or empty, and the reader gives no documents
  for an empty directory (it raises or returns the empty list), the global \<open>index\<close> is
  \<open>None\<close> when the import is done.
\<close>

theorem module_init_empty_docs:
  assumes "cfg ''DEEPSEEK_API_KEY'' = Some (Some k)" and "k \<noteq> []"
  shows "\<exists>s. module_init lib cfg fs0 = Inr s
           \<and> fs s = (if fs0 ''docs'' = None then fs0(''docs'' \<mapsto> Dir []) else fs0)
           \<and> ((fs0 ''docs'' = None \<or> fs0 ''docs'' = Some (Dir []))
                \<and> (load_data lib (Some (Dir [])) = Inl e \<or> load_data lib (Some (Dir [])) = Inr [])
              \<longrightarrow> index s = None)"
proof -
  define s1 where "s1 =
    (if fs0 ''docs'' = None then
       (log WARNING ''The 'docs' directory does not exist. Please create it and add your documents.''
          \<lparr>index = None, fs = fs0, logger = []\<rparr>)\<lparr>fs := fs0(''docs'' \<mapsto> Dir [])\<rparr>
     else \<lparr>index = None, fs = fs0, logger = []\<rparr>)"
  have init: "module_init lib cfg fs0 = Inr (snd (construct_index lib ''docs'' s1))"
    using assms by (simp add: module_init_def config_get_def Let_def s1_def)
  have files: "fs s1 = (if fs0 ''docs'' = None then fs0(''docs'' \<mapsto> Dir []) else fs0)"
    by (simp add: s1_def)
  have start: "index s1 = None"
    by (simp add: s1_def)
  have "index (snd (construct_index lib ''docs'' s1)) = None"
    if dir: "fs0 ''docs'' = None \<or> fs0 ''docs'' = Some (Dir [])"
      and reader: "load_data lib (Some (Dir [])) = Inl e \<or> load_data lib (Some (Dir [])) = Inr []"
  proof -
    from dir files have "fs s1 ''docs'' = Some (Dir [])" by auto
    with reader have "load_data lib (fs s1 ''docs'') = Inl e \<or> load_data lib (fs s1 ''docs'') = Inr []"
      by simp
    then show ?thesis
      using start by (auto simp add: construct_index_reader_raises construct_index_no_documents)
  qed
  with init files show ?thesis by simp
qed

theorem module_init_empty_docs_witness:
  "\<exists>s. module_init strict_library [''DEEPSEEK_API_KEY'' \<mapsto> Some ''sk-1''] Map.empty = Inr s
      \<and> fs s = [''docs'' \<mapsto> Dir []] \<and> index s = None"
proof -
  have key: "[''DEEPSEEK_API_KEY'' \<mapsto> Some ''sk-1''] ''DEEPSEEK_API_KEY'' = Some (Some ''sk-1'')"
    by simp
  have nonempty: "''sk-1'' \<noteq> []" by simp
  have reader: "load_data strict_library (Some (Dir [])) = Inl (ValueError ''No files found.'')"
    by (simp add: strict_library_def strict_reader_def)
  from module_init_empty_docs
         [where cfg = "[''DEEPSEEK_API_KEY'' \<mapsto> Some ''sk-1'']" and k = "''sk-1''"
            and lib = strict_library and ?fs0.0 = Map.empty
            and e = "ValueError ''No files found.''", OF key nonempty]
  show ?thesis using reader by simp
qed

end
